theory Spec2Isabelle
  imports Complex_Main
begin

section \<open>Skew Hunter: the operator front end\<close>

text \<open>
  The sources under verification are the React/TypeScript front end of the Skew Hunter
  options engine: the hooks \<open>useWebSocket\<close> and \<open>useEngine\<close>, the constants of
  \<open>lib/constants\<close>, and the pages \<open>Setup\<close>, \<open>Dashboard\<close>, \<open>Settings\<close> and \<open>History\<close>
  with the \<open>ProgressBar\<close> component. A definition that bears the name of a function,
  a constant or an interface of the sources transcribes it; the predicates that the
  properties are stated with are introduced as such. The engine proper, a Python back
  end, is not among the sources: the one part of it that is needed is modelled from the
  specification and marked so.

  Numbers. A JavaScript \<open>number\<close> that arrives in a JSON document is a finite double.
  A finite double is modelled as the \<^typ>\<open>real\<close> it denotes; comparisons between finite
  doubles are exact in both worlds. The only arithmetic of the sources that a property
  depends on is that of \<open>ProgressBar\<close>; there every operation is an IEEE 754 binary64
  operation, with its rounding, its overflow to an infinity and its \<open>NaN\<close> written out.
\<close>

subsection \<open>Values exchanged with the engine\<close>

text \<open>
  What \<open>JSON.parse\<close> returns and \<open>JSON.stringify\<close> takes. An object is the list of its
  members; \<open>map_of\<close> reads a member by its key.
\<close>

datatype json =
    JNull
  | JBool bool
  | JNum real
  | JStr string
  | JArr "json list"
  | JObj "(string \<times> json) list"

text \<open>The exception that a property access on \<open>null\<close> or \<open>undefined\<close> throws.\<close>

datatype js_error = TypeError

text \<open>
  The expression \<open>data.type\<close> on a parsed value: reading a property of \<open>null\<close> throws a
  \<open>TypeError\<close>, an object gives its member or \<open>undefined\<close> (here \<open>None\<close>), and a
  number, a string, a boolean and an array have no property of that name.
\<close>

fun type_of :: "json \<Rightarrow> js_error + json option" where
  "type_of JNull = Inl TypeError"
| "type_of (JObj members) = Inr (map_of members ''type'')"
| "type_of (JBool b) = Inr None"
| "type_of (JNum x) = Inr None"
| "type_of (JStr s) = Inr None"
| "type_of (JArr xs) = Inr None"

subsection \<open>lib/constants\<close>

datatype execution_mode = OFF | PAPER | LIVE

datatype broker = UPSTOX | DHAN

text \<open>The keys of \<open>EXIT_REASONS\<close> and the labels the table gives them.\<close>

datatype exit_reason =
    profit_target
  | trailing_stop
  | initial_stop
  | time_exit
  | mtm_max_loss
  | mtm_profit_protection
  | manual_exit
  | emergency_stop

fun EXIT_REASONS :: "exit_reason \<Rightarrow> string" where
  "EXIT_REASONS profit_target = ''Target Hit''"
| "EXIT_REASONS trailing_stop = ''Trailing Stop''"
| "EXIT_REASONS initial_stop = ''Stop Loss''"
| "EXIT_REASONS time_exit = ''Time Exit''"
| "EXIT_REASONS mtm_max_loss = ''MTM Max Loss''"
| "EXIT_REASONS mtm_profit_protection = ''Profit Protection''"
| "EXIT_REASONS manual_exit = ''Manual Exit''"
| "EXIT_REASONS emergency_stop = ''Emergency Stop''"

definition CONFLUENCE_FACTORS :: "string list" where
  "CONFLUENCE_FACTORS =
     [''Alpha1'', ''Alpha2'', ''PCR'', ''Volume'', ''Trend'', ''OI_Vel'', ''OI_Flow'']"

subsection \<open>useWebSocket: the state subscription\<close>

text \<open>The state of the hook; \<open>data\<close> starts as \<open>null\<close>.\<close>

record WebSocketState =
  connected :: bool
  data :: json
  error :: "string option"

definition initial_state :: WebSocketState where
  "initial_state = \<lparr> connected = False, data = JNull, error = None \<rparr>"

text \<open>
  The four handlers that \<open>connect\<close> installs on the socket, each a state update
  \<open>setState(prev => ...)\<close>. A frame is the text \<open>event.data\<close>. \<open>JSON.parse\<close> is a
  built-in of the platform and is taken as the parameter \<open>parse\<close>, \<open>None\<close> standing for
  the \<open>SyntaxError\<close> it throws. Both that error and the \<open>TypeError\<close> of \<open>data.type\<close> on
  \<open>null\<close> are caught by the \<open>try\<close> of the handler, which then only logs.
\<close>

definition onopen :: "WebSocketState \<Rightarrow> WebSocketState" where
  "onopen prev = prev\<lparr> connected := True, error := None \<rparr>"

definition onmessage :: "(string \<Rightarrow> json option) \<Rightarrow> WebSocketState \<Rightarrow> string \<Rightarrow> WebSocketState" where
  "onmessage parse prev frame =
     (case parse frame of
        None \<Rightarrow> prev
      | Some d \<Rightarrow>
          (case type_of d of
             Inl e \<Rightarrow> prev
           | Inr ty \<Rightarrow>
               if ty \<noteq> Some (JStr ''ping'') \<and> ty \<noteq> Some (JStr ''pong'')
               then prev\<lparr> data := d \<rparr>
               else prev))"

definition onclose :: "WebSocketState \<Rightarrow> WebSocketState" where
  "onclose prev = prev\<lparr> connected := False \<rparr>"

definition onerror :: "WebSocketState \<Rightarrow> WebSocketState" where
  "onerror prev = prev\<lparr> error := Some ''Connection error'' \<rparr>"

datatype ws_event = Open | Message string | Close | Error

fun handle :: "(string \<Rightarrow> json option) \<Rightarrow> WebSocketState \<Rightarrow> ws_event \<Rightarrow> WebSocketState" where
  "handle parse s Open = onopen s"
| "handle parse s (Message frame) = onmessage parse s frame"
| "handle parse s Close = onclose s"
| "handle parse s Error = onerror s"

text \<open>The events of a connection (and of its reconnections), handled in their order.\<close>

definition run :: "(string \<Rightarrow> json option) \<Rightarrow> WebSocketState \<Rightarrow> ws_event list \<Rightarrow> WebSocketState" where
  "run parse s evs = foldl (handle parse) s evs"

text \<open>
  The reading of the subscription that the property is stated with: a message has a type
  when it parses and its \<open>type\<close> can be read; its payload is the parsed document.
\<close>

definition is_ping_pong :: "json \<Rightarrow> bool" where
  "is_ping_pong d = (type_of d = Inr (Some (JStr ''ping'')) \<or> type_of d = Inr (Some (JStr ''pong'')))"

definition has_type :: "json \<Rightarrow> bool" where
  "has_type d = (case type_of d of Inl e \<Rightarrow> False | Inr ty \<Rightarrow> True)"

fun snapshot_of :: "(string \<Rightarrow> json option) \<Rightarrow> ws_event \<Rightarrow> json option" where
  "snapshot_of parse (Message frame) =
     (case parse frame of
        None \<Rightarrow> None
      | Some d \<Rightarrow> if has_type d \<and> \<not> is_ping_pong d then Some d else None)"
| "snapshot_of parse ev = None"

definition snapshots :: "(string \<Rightarrow> json option) \<Rightarrow> ws_event list \<Rightarrow> json list" where
  "snapshots parse evs = List.map_filter (snapshot_of parse) evs"

subsection \<open>Dashboard: the two signal cards\<close>

text \<open>
  The members of the state snapshot that the cards \<open>CALL Signal\<close> and \<open>PUT Signal\<close> read.
  \<open>confluence_conditions_call\<close> and \<open>confluence_conditions_put\<close> are read with \<open>?.\<close>, so
  they may be absent. A threshold of \<open>data.thresholds\<close> may be absent as well.
\<close>

record snapshot =
  pcr :: real
  rsi :: real
  alpha_1_call :: real
  alpha_2_call :: real
  quality_score_call :: real
  volume_ratio_call :: real
  alpha_1_put :: real
  alpha_2_put :: real
  quality_score_put :: real
  volume_ratio_put :: real
  confluence_call :: nat
  confluence_put :: nat
  confluence_conditions_call :: "string list option"
  confluence_conditions_put :: "string list option"

record thresholds =
  th_alpha_1_call :: "real option"
  th_alpha_2_call :: "real option"
  th_alpha_1_put :: "real option"
  th_alpha_2_put :: "real option"
  th_min_quality_score :: "real option"
  th_volume_ratio_threshold :: "real option"

text \<open>\<open>x || d\<close> on numbers: the default replaces an absent value and the falsy 0.\<close>

definition or_default :: "real option \<Rightarrow> real \<Rightarrow> real" where
  "or_default x d = (case x of None \<Rightarrow> d | Some v \<Rightarrow> if v = 0 then d else v)"

text \<open>The properties of a \<open>ConditionRow\<close>, and the symbol it prints for a comparison.\<close>

datatype comparison = gte | lte | gt | lt | eq | isin

record condition_row =
  label :: string
  cr_value :: real
  threshold :: real
  comparison :: comparison
  passed :: bool

fun comparisonSymbol :: "comparison \<Rightarrow> string" where
  "comparisonSymbol gte = ''>=''"
| "comparisonSymbol lte = ''<=''"
| "comparisonSymbol gt = ''>''"
| "comparisonSymbol lt = ''<''"
| "comparisonSymbol eq = ''=''"
| "comparisonSymbol isin = ''in''"

text \<open>
  The six rows of the card \<open>CALL Signal\<close> (lines 203 to 240) and of the card
  \<open>PUT Signal\<close> (lines 270 to 307), in their order. A row without the property
  \<open>comparison\<close> has the default \<open>gte\<close> of the component.
\<close>

definition call_rows :: "thresholds \<Rightarrow> snapshot \<Rightarrow> condition_row list" where
  "call_rows th d =
     [ \<lparr> label = ''Alpha 1'', cr_value = alpha_1_call d,
         threshold = or_default (th_alpha_1_call th) (75 / 100), comparison = gte,
         passed = (alpha_1_call d \<ge> or_default (th_alpha_1_call th) (75 / 100)) \<rparr>,
       \<lparr> label = ''Alpha 2'', cr_value = alpha_2_call d,
         threshold = or_default (th_alpha_2_call th) (73 / 100), comparison = gte,
         passed = (alpha_2_call d \<ge> or_default (th_alpha_2_call th) (73 / 100)) \<rparr>,
       \<lparr> label = ''Quality'', cr_value = quality_score_call d,
         threshold = or_default (th_min_quality_score th) 75, comparison = gte,
         passed = (quality_score_call d \<ge> or_default (th_min_quality_score th) 75) \<rparr>,
       \<lparr> label = ''Volume Ratio'', cr_value = volume_ratio_call d,
         threshold = or_default (th_volume_ratio_threshold th) (18 / 10), comparison = gte,
         passed = (volume_ratio_call d \<ge> or_default (th_volume_ratio_threshold th) (18 / 10)) \<rparr>,
       \<lparr> label = ''PCR'', cr_value = pcr d,
         threshold = 105 / 100, comparison = gt,
         passed = (pcr d > 105 / 100) \<rparr>,
       \<lparr> label = ''RSI'', cr_value = rsi d,
         threshold = 75, comparison = lt,
         passed = (rsi d < 75) \<rparr> ]"

definition put_rows :: "thresholds \<Rightarrow> snapshot \<Rightarrow> condition_row list" where
  "put_rows th d =
     [ \<lparr> label = ''Alpha 1'', cr_value = alpha_1_put d,
         threshold = or_default (th_alpha_1_put th) (75 / 100), comparison = gte,
         passed = (alpha_1_put d \<ge> or_default (th_alpha_1_put th) (75 / 100)) \<rparr>,
       \<lparr> label = ''Alpha 2'', cr_value = alpha_2_put d,
         threshold = or_default (th_alpha_2_put th) (73 / 100), comparison = gte,
         passed = (alpha_2_put d \<ge> or_default (th_alpha_2_put th) (73 / 100)) \<rparr>,
       \<lparr> label = ''Quality'', cr_value = quality_score_put d,
         threshold = or_default (th_min_quality_score th) 75, comparison = gte,
         passed = (quality_score_put d \<ge> or_default (th_min_quality_score th) 75) \<rparr>,
       \<lparr> label = ''Volume Ratio'', cr_value = volume_ratio_put d,
         threshold = or_default (th_volume_ratio_threshold th) (18 / 10), comparison = gte,
         passed = (volume_ratio_put d \<ge> or_default (th_volume_ratio_threshold th) (18 / 10)) \<rparr>,
       \<lparr> label = ''PCR'', cr_value = pcr d,
         threshold = 95 / 100, comparison = lt,
         passed = (pcr d < 95 / 100) \<rparr>,
       \<lparr> label = ''RSI'', cr_value = rsi d,
         threshold = 25, comparison = gt,
         passed = (rsi d > 25) \<rparr> ]"

text \<open>The row of a card with a given label.\<close>

definition row :: "condition_row list \<Rightarrow> string \<Rightarrow> condition_row option" where
  "row rows l = find (\<lambda>r. label r = l) rows"

text \<open>
  The children of the badge in the header of a card, \<open>{data.confluence_call}/6\<close>: the
  value of the expression followed by the literal text.
\<close>

datatype jsx_child = JsxNumber nat | JsxText string

definition call_header :: "snapshot \<Rightarrow> jsx_child list" where
  "call_header d = [JsxNumber (confluence_call d), JsxText ''/6'']"

definition put_header :: "snapshot \<Rightarrow> jsx_child list" where
  "put_header d = [JsxNumber (confluence_put d), JsxText ''/6'']"

text \<open>
  The badges under the rows, \<open>CONFLUENCE_FACTORS.map(factor => ...)\<close>: one badge per
  factor of the catalogue, in the variant of the side when the list of the snapshot
  includes the factor. An absent list makes \<open>?.includes\<close> undefined, which is falsy.
\<close>

datatype badge_variant = v_default | v_call | v_put | v_win | v_loss | v_warning

definition includes_factor :: "string list option \<Rightarrow> string \<Rightarrow> bool" where
  "includes_factor xs f = (case xs of None \<Rightarrow> False | Some ys \<Rightarrow> f \<in> set ys)"

definition call_badges :: "snapshot \<Rightarrow> (string \<times> badge_variant) list" where
  "call_badges d =
     map (\<lambda>factor. (factor, if includes_factor (confluence_conditions_call d) factor then v_call else v_default))
       CONFLUENCE_FACTORS"

definition put_badges :: "snapshot \<Rightarrow> (string \<times> badge_variant) list" where
  "put_badges d =
     map (\<lambda>factor. (factor, if includes_factor (confluence_conditions_put d) factor then v_put else v_default))
       CONFLUENCE_FACTORS"

subsection \<open>useEngine: requests to the control surface\<close>

text \<open>The parameter \<open>action\<close> of \<open>handleOrphan\<close>: \<open>'RECOVER' | 'EXIT' | 'IGNORE'\<close>.\<close>

datatype orphan_action = RECOVER | EXIT | IGNORE

fun action_string :: "orphan_action \<Rightarrow> string" where
  "action_string RECOVER = ''RECOVER''"
| "action_string EXIT = ''EXIT''"
| "action_string IGNORE = ''IGNORE''"

record request =
  rq_method :: string
  rq_url :: string
  rq_body :: "json option"

text \<open>\<open>JSON.stringify\<close> leaves out a member whose value is \<open>undefined\<close>.\<close>

definition json_member :: "string \<Rightarrow> json option \<Rightarrow> (string \<times> json) list" where
  "json_member k v = (case v of None \<Rightarrow> [] | Some j \<Rightarrow> [(k, j)])"

text \<open>The request that \<open>handleOrphan(action, tradeData)\<close> sends (lines 178 to 182).\<close>

definition handleOrphan :: "orphan_action \<Rightarrow> json option \<Rightarrow> request" where
  "handleOrphan action tradeData =
     \<lparr> rq_method = ''POST'', rq_url = ''/api/orphan/recover'',
       rq_body = Some (JObj ([(''action'', JStr (action_string action))] @ json_member ''trade_data'' tradeData)) \<rparr>"

text \<open>The request of \<open>checkOrphan\<close> (a \<open>fetch\<close> without options is a GET without body).\<close>

definition checkOrphan :: request where
  "checkOrphan = \<lparr> rq_method = ''GET'', rq_url = ''/api/orphan'', rq_body = None \<rparr>"

text \<open>The interface \<open>EngineConfig\<close> and the request of \<open>startEngine(config)\<close>.\<close>

record EngineConfig =
  ec_token :: string
  ec_capital :: real
  ec_executionMode :: execution_mode
  ec_broker :: broker
  ec_dhanToken :: "string option"
  ec_dhanClientId :: "string option"

fun execution_mode_string :: "execution_mode \<Rightarrow> string" where
  "execution_mode_string OFF = ''OFF''"
| "execution_mode_string PAPER = ''PAPER''"
| "execution_mode_string LIVE = ''LIVE''"

fun broker_string :: "broker \<Rightarrow> string" where
  "broker_string UPSTOX = ''UPSTOX''"
| "broker_string DHAN = ''DHAN''"

definition startEngine :: "EngineConfig \<Rightarrow> request" where
  "startEngine config =
     \<lparr> rq_method = ''POST'', rq_url = ''/api/engine/start'',
       rq_body = Some (JObj
         ([(''token'', JStr (ec_token config)),
           (''capital'', JNum (ec_capital config)),
           (''execution_mode'', JStr (execution_mode_string (ec_executionMode config))),
           (''broker'', JStr (broker_string (ec_broker config)))]
          @ json_member ''dhan_token'' (map_option JStr (ec_dhanToken config))
          @ json_member ''dhan_client_id'' (map_option JStr (ec_dhanClientId config)))) \<rparr>"

subsection \<open>Setup page: starting the engine\<close>

datatype step = token_step | config_step | execution_step | broker_step | confirm_step | starting_step

text \<open>The state variables of the component that \<open>handleStart\<close> reads or writes.\<close>

record setup_state =
  step :: step
  token :: string
  capital :: real
  executionMode :: execution_mode
  broker :: broker
  dhanToken :: string
  dhanClientId :: string
  confirmText :: string
  validationError :: string

text \<open>
  What the world answers during one call of \<open>handleStart\<close>: whether \<open>startEngine\<close>
  resolves (it throws when the response is not ok or the request fails), and the member
  \<open>has_orphan\<close> of the answer of \<open>checkOrphan\<close> (which never throws: it answers
  \<open>{ has_orphan: false }\<close> when the request fails).
\<close>

record answers =
  start_ok :: bool
  has_orphan :: bool

text \<open>What a handler does to the outside, in the order it does it.\<close>

datatype effect = Fetch request | Navigate string

text \<open>
  \<open>handleStart\<close>, lines 84 to 111. The guard returns before anything is sent. The body
  of \<open>if (orphan.has_orphan)\<close> is empty in the source. An exception of \<open>startEngine\<close>
  skips the rest of the \<open>try\<close> and the \<open>catch\<close> goes back to the step \<open>execution\<close>.
  \<open>start_config\<close> is the object literal handed to \<open>startEngine\<close>.
\<close>

definition start_config :: "setup_state \<Rightarrow> EngineConfig" where
  "start_config s =
     \<lparr> ec_token = token s, ec_capital = capital s,
       ec_executionMode = executionMode s, ec_broker = broker s,
       ec_dhanToken = (if broker s = DHAN then Some (dhanToken s) else None),
       ec_dhanClientId = (if broker s = DHAN then Some (dhanClientId s) else None) \<rparr>"

definition handleStart :: "answers \<Rightarrow> setup_state \<Rightarrow> setup_state \<times> effect list" where
  "handleStart w s =
     (if executionMode s = LIVE \<and> confirmText s \<noteq> ''CONFIRM''
      then (s\<lparr> validationError := ''Please type CONFIRM to enable live trading'' \<rparr>, [])
      else
        let s1 = s\<lparr> step := starting_step \<rparr>
        in if start_ok w
           then (s1, [Fetch (startEngine (start_config s)), Fetch checkOrphan]
                      @ (if has_orphan w then [] else [])
                      @ [Navigate ''/dashboard''])
           else (s1\<lparr> step := execution_step \<rparr>, [Fetch (startEngine (start_config s))]))"

text \<open>Whether an effect is an engine-start request, and whether it resolves an orphan.\<close>

definition is_start_request :: "effect \<Rightarrow> bool" where
  "is_start_request e = (case e of Fetch r \<Rightarrow> rq_url r = ''/api/engine/start'' | Navigate u \<Rightarrow> False)"

definition is_orphan_resolution :: "effect \<Rightarrow> bool" where
  "is_orphan_resolution e = (case e of Fetch r \<Rightarrow> rq_url r = ''/api/orphan/recover'' | Navigate u \<Rightarrow> False)"

definition is_orphan_check :: "effect \<Rightarrow> bool" where
  "is_orphan_check e = (case e of Fetch r \<Rightarrow> rq_url r = ''/api/orphan'' | Navigate u \<Rightarrow> False)"

subsection \<open>Settings page: editing the configuration\<close>

text \<open>
  \<open>updateValue\<close> copies the configuration object with a spread and then assigns through
  a chain of property reads. Whether the assignment is seen through the configuration
  held before depends on which objects are shared, so objects live in a store: an
  address is an index into the list of all objects, a property holds a primitive value
  or the address of an object, and an object is the list of its properties.
\<close>

type_synonym addr = nat

datatype jsval = VUndefined | VNum real | VStr string | VRef addr

type_synonym object = "(string \<times> jsval) list"

type_synonym store = "object list"

text \<open>Reading a property that an object does not have gives \<open>undefined\<close>.\<close>

definition get_prop :: "object \<Rightarrow> string \<Rightarrow> jsval" where
  "get_prop ob k = (case map_of ob k of None \<Rightarrow> VUndefined | Some v \<Rightarrow> v)"

text \<open>
  The assignment \<open>obj[k] = v\<close>: an existing property keeps its place, a new one is added
  at the end.
\<close>

fun set_prop :: "string \<Rightarrow> jsval \<Rightarrow> object \<Rightarrow> object" where
  "set_prop k v [] = [(k, v)]"
| "set_prop k v (p # ps) = (if fst p = k then (k, v) # ps else p # set_prop k v ps)"

text \<open>
  The loop of lines 96 to 98, \<open>obj = obj[path[i]]\<close> over all keys of the path but the last.
  When a key leads to \<open>undefined\<close> or to a primitive value, the next property read or
  the final assignment throws a \<open>TypeError\<close> (the module is strict); the model raises
  it at once. The properties that string primitives have of their own are not modelled.
\<close>

fun walk :: "store \<Rightarrow> addr \<Rightarrow> string list \<Rightarrow> js_error + addr" where
  "walk h obj [] = Inr obj"
| "walk h obj (k # ks) =
     (if obj < length h
      then (case get_prop (h ! obj) k of
              VRef a \<Rightarrow> walk h a ks
            | VUndefined \<Rightarrow> Inl TypeError
            | VNum x \<Rightarrow> Inl TypeError
            | VStr x \<Rightarrow> Inl TypeError)
      else Inl TypeError)"

text \<open>The state variables of the page; \<open>config\<close> is \<open>null\<close> until the load returns.\<close>

record settings_state =
  config :: "addr option"
  hasChanges :: bool
  saveSuccess :: bool

text \<open>
  \<open>updateValue(path, value)\<close>, lines 92 to 102. \<open>{ ...config }\<close> allocates one new object
  with the properties of \<open>config\<close>, values and addresses alike. With an empty path the
  key \<open>path[-1]\<close> is \<open>undefined\<close>, which names the property \<open>"undefined"\<close>. An exception
  leaves the state variables as they were. The two bounds checks are there to make the
  function total: in a running program \<open>config\<close> and every address read from a property
  denote an object of the store.
\<close>

definition updateValue ::
  "store \<Rightarrow> settings_state \<Rightarrow> string list \<Rightarrow> jsval \<Rightarrow> js_error + (store \<times> settings_state)" where
  "updateValue h s path v =
     (case config s of
        None \<Rightarrow> Inr (h, s)
      | Some c \<Rightarrow>
          if c < length h
          then
            let newConfig = length h;
                h1 = h @ [h ! c];
                key = (if path = [] then ''undefined'' else last path)
            in (case walk h1 newConfig (butlast path) of
                  Inl e \<Rightarrow> Inl e
                | Inr obj \<Rightarrow>
                    if obj < length h1
                    then Inr (h1[obj := set_prop key v (h1 ! obj)],
                              s\<lparr> config := Some newConfig, hasChanges := True \<rparr>)
                    else Inl TypeError)
          else Inl TypeError)"

text \<open>Reading \<open>config.k1.k2...\<close> through an object of the store.\<close>

fun read_path :: "store \<Rightarrow> addr \<Rightarrow> string list \<Rightarrow> jsval" where
  "read_path h a [] = VRef a"
| "read_path h a [k] = (if a < length h then get_prop (h ! a) k else VUndefined)"
| "read_path h a (k # ks) =
     (if a < length h
      then (case get_prop (h ! a) k of VRef a' \<Rightarrow> read_path h a' ks | other \<Rightarrow> VUndefined)
      else VUndefined)"

subsection \<open>Exit policy of the engine\<close>

text \<open>
  The engine itself (the Python back end) is not among the sources; the front end only
  holds the table \<open>EXIT_REASONS\<close> of the reasons it reports.
\<close>

text \<open>
  Modelled from the spec: the truth values, at one tick of an open trade, of the seven
  exit conditions of section 4.3 in the order the section lists them, with the flag
  "trailing active" of the trade and whether the tick falls into the minimum-hold
  duration after the entry. The evaluation of the conditions is missing from the
  sources.
\<close>

record exit_conditions =
  emergency_exit_requested :: bool
  max_loss_reached :: bool
  stop_crossed :: bool
  time_exit_reached :: bool
  profit_target_hit :: bool
  profit_protection_hit :: bool
  manual_exit_requested :: bool
  trailing_active :: bool
  within_min_hold :: bool

text \<open>
  Modelled from the spec: section 4.3, "Exit conditions are evaluated in a fixed priority
  order: the first that is true fires, later ones are not considered even if also true",
  and "A minimum-hold duration suppresses all conditions except (1) and (2) during the
  opening seconds of a trade". The function that evaluates the exits is missing from the
  sources. The reason recorded for a crossed stop is \<open>trailing_stop\<close> once trailing is
  active (the scenario of section 8) and \<open>initial_stop\<close> before.
\<close>

definition evaluate_exit :: "exit_conditions \<Rightarrow> exit_reason option" where
  "evaluate_exit c =
     (if emergency_exit_requested c then Some emergency_stop
      else if max_loss_reached c then Some mtm_max_loss
      else if within_min_hold c then None
      else if stop_crossed c then Some (if trailing_active c then trailing_stop else initial_stop)
      else if time_exit_reached c then Some time_exit
      else if profit_target_hit c then Some profit_target
      else if profit_protection_hit c then Some mtm_profit_protection
      else if manual_exit_requested c then Some manual_exit
      else None)"

text \<open>
  Modelled from the spec: the numbered list of section 4.3 as a table, each condition
  with the reason it records, and "the first that is true fires" read off such a table.
  Both are missing from the sources, as the evaluation is.
\<close>

definition priority_order :: "exit_conditions \<Rightarrow> (bool \<times> exit_reason) list" where
  "priority_order c =
     [ (emergency_exit_requested c, emergency_stop),
       (max_loss_reached c, mtm_max_loss),
       (stop_crossed c, if trailing_active c then trailing_stop else initial_stop),
       (time_exit_reached c, time_exit),
       (profit_target_hit c, profit_target),
       (profit_protection_hit c, mtm_profit_protection),
       (manual_exit_requested c, manual_exit) ]"

definition first_true :: "(bool \<times> exit_reason) list \<Rightarrow> exit_reason option" where
  "first_true tab = map_option snd (find fst tab)"

subsection \<open>History page: filter and statistics\<close>

text \<open>
  \<open>History.tsx\<close>, interface \<open>Trade\<close>: the fields that the filter and the counters read,
  with the identifier of the record.
\<close>

record trade =
  trade_id :: int
  date :: string
  exit_reason :: string
  pnl_rupees :: real

text \<open>The state variable \<open>filter\<close>: \<open>'all' | 'wins' | 'losses'\<close>.\<close>

datatype filter_kind = All | Wins | Losses

text \<open>
  The callback of \<open>trades.filter\<close>, lines 58 to 63. The three early returns are kept
  in their order; an empty \<open>dateFilter\<close> is falsy.
\<close>

definition keep_trade :: "filter_kind \<Rightarrow> string \<Rightarrow> trade \<Rightarrow> bool" where
  "keep_trade flt dateFilter t =
     (if flt = Wins \<and> pnl_rupees t \<le> 0 then False
      else if flt = Losses \<and> pnl_rupees t > 0 then False
      else if dateFilter \<noteq> [] \<and> date t \<noteq> dateFilter then False
      else True)"

definition filteredTrades :: "trade list \<Rightarrow> filter_kind \<Rightarrow> string \<Rightarrow> trade list" where
  "filteredTrades trades flt dateFilter = filter (keep_trade flt dateFilter) trades"

text \<open>
  The counters of the object \<open>stats\<close>, lines 70 to 73. The money aggregates of the same
  object (\<open>totalPnl\<close>, \<open>avgWin\<close>, \<open>avgLoss\<close>, \<open>profitFactor\<close>) are floating-point sums and
  quotients and are left out.
\<close>

record history_stats =
  totalTrades :: nat
  wins :: nat
  losses :: nat

definition stats_of :: "trade list \<Rightarrow> history_stats" where
  "stats_of ft =
     \<lparr> totalTrades = length ft,
       wins = length (filter (\<lambda>t. pnl_rupees t > 0) ft),
       losses = length (filter (\<lambda>t. pnl_rupees t \<le> 0) ft) \<rparr>"

definition stats :: "trade list \<Rightarrow> filter_kind \<Rightarrow> string \<Rightarrow> history_stats" where
  "stats trades flt dateFilter = stats_of (filteredTrades trades flt dateFilter)"

subsection \<open>ProgressBar\<close>

text \<open>
  The values of a JavaScript \<open>number\<close>: a finite double, the two infinities and \<open>NaN\<close>.
  The two zeros are not told apart: of the operations below only a division by zero
  depends on the sign of a zero, and the divisor there is a difference of two finite
  numbers, which is zero only when the two are equal and is the positive zero then.
\<close>

datatype jsnum = NaN | NegInf | Fin real | PosInf

text \<open>
  The result of a binary64 operation whose exact result is the real \<open>x\<close>, in the default
  rounding mode (to nearest, ties to even). The largest finite double is
  \<open>2^1024 - 2^971\<close>; an exact result of magnitude \<open>2^1024 - 2^970\<close> or more, half a unit
  in the last place beyond it, becomes an infinity. Below that bound the result is the
  double nearest to \<open>x\<close>: the rounding is an operation of the platform and is taken as the
  parameter \<open>rnd\<close>.
\<close>

definition overflow_threshold :: real where
  "overflow_threshold = 2 ^ 1024 - 2 ^ 970"

definition max_double :: real where
  "max_double = 2 ^ 1024 - 2 ^ 971"

definition fl :: "(real \<Rightarrow> real) \<Rightarrow> real \<Rightarrow> jsnum" where
  "fl rnd x =
     (if x \<ge> overflow_threshold then PosInf
      else if x \<le> - overflow_threshold then NegInf
      else Fin (rnd x))"

text \<open>The difference \<open>a - b\<close> of two finite numbers.\<close>

definition js_sub :: "(real \<Rightarrow> real) \<Rightarrow> real \<Rightarrow> real \<Rightarrow> jsnum" where
  "js_sub rnd a b = fl rnd (a - b)"

text \<open>
  The quotient \<open>a / b\<close>: a nonzero finite number divided by zero is an infinity of its
  sign, \<open>0 / 0\<close> and an infinity divided by an infinity are \<open>NaN\<close>, a finite number divided
  by an infinity is zero, and \<open>NaN\<close> is contagious.
\<close>

fun js_div :: "(real \<Rightarrow> real) \<Rightarrow> jsnum \<Rightarrow> jsnum \<Rightarrow> jsnum" where
  "js_div rnd (Fin a) (Fin b) =
     (if b \<noteq> 0 then fl rnd (a / b)
      else if a > 0 then PosInf
      else if a < 0 then NegInf
      else NaN)"
| "js_div rnd (Fin a) PosInf = Fin 0"
| "js_div rnd (Fin a) NegInf = Fin 0"
| "js_div rnd PosInf (Fin b) = (if b \<ge> 0 then PosInf else NegInf)"
| "js_div rnd NegInf (Fin b) = (if b \<ge> 0 then NegInf else PosInf)"
| "js_div rnd PosInf PosInf = NaN"
| "js_div rnd PosInf NegInf = NaN"
| "js_div rnd NegInf PosInf = NaN"
| "js_div rnd NegInf NegInf = NaN"
| "js_div rnd NaN b = NaN"
| "js_div rnd a NaN = NaN"

text \<open>The product with a positive finite factor (here the literal 100).\<close>

fun js_scale :: "(real \<Rightarrow> real) \<Rightarrow> jsnum \<Rightarrow> real \<Rightarrow> jsnum" where
  "js_scale rnd (Fin x) k = fl rnd (x * k)"
| "js_scale rnd NaN k = NaN"
| "js_scale rnd PosInf k = PosInf"
| "js_scale rnd NegInf k = NegInf"

text \<open>
  \<open>Math.max\<close> and \<open>Math.min\<close> against a finite bound: they select one of their
  arguments, so nothing is rounded, and \<open>NaN\<close> is contagious.
\<close>

fun Math_max :: "jsnum \<Rightarrow> real \<Rightarrow> jsnum" where
  "Math_max NaN b = NaN"
| "Math_max NegInf b = Fin b"
| "Math_max (Fin x) b = Fin (max x b)"
| "Math_max PosInf b = PosInf"

fun Math_min :: "jsnum \<Rightarrow> real \<Rightarrow> jsnum" where
  "Math_min NaN b = NaN"
| "Math_min NegInf b = NegInf"
| "Math_min (Fin x) b = Fin (min x b)"
| "Math_min PosInf b = Fin b"

text \<open>
  The numeric properties of \<open>ProgressBarProps\<close>, finite numbers; \<open>max\<close> and \<open>min\<close> are
  optional and default to 100 and 0 in the parameter list of the component.
\<close>

record progress_props =
  pb_value :: real
  pb_max :: "real option"
  pb_min :: "real option"

definition max_of :: "progress_props \<Rightarrow> real" where
  "max_of p = (case pb_max p of None \<Rightarrow> 100 | Some m \<Rightarrow> m)"

definition min_of :: "progress_props \<Rightarrow> real" where
  "min_of p = (case pb_min p of None \<Rightarrow> 0 | Some m \<Rightarrow> m)"

text \<open>Line 26, \<open>const range = max - min\<close>.\<close>

definition range_of :: "(real \<Rightarrow> real) \<Rightarrow> progress_props \<Rightarrow> jsnum" where
  "range_of rnd p = js_sub rnd (max_of p) (min_of p)"

text \<open>
  Line 27. The first argument of \<open>Math.max\<close>, \<open>((value - min) / range) * 100\<close>, and the
  whole expression.
\<close>

definition ratio :: "(real \<Rightarrow> real) \<Rightarrow> progress_props \<Rightarrow> jsnum" where
  "ratio rnd p =
     js_scale rnd (js_div rnd (js_sub rnd (pb_value p) (min_of p)) (range_of rnd p)) 100"

definition percentage :: "(real \<Rightarrow> real) \<Rightarrow> progress_props \<Rightarrow> jsnum" where
  "percentage rnd p = Math_min (Math_max (ratio rnd p) 0) 100"

text \<open>Line 52: the inline style of the inner bar, \<open>width: `${percentage}%`\<close>.\<close>

datatype css_width = Percent jsnum

definition bar_width :: "(real \<Rightarrow> real) \<Rightarrow> progress_props \<Rightarrow> css_width" where
  "bar_width rnd p = Percent (percentage rnd p)"

text \<open>
  What the properties are stated with. An exact result overflows when its magnitude
  reaches the threshold. Every finite double is an integer multiple of the least
  subnormal \<open>2^-1074\<close> and is at most \<open>max_double\<close> in magnitude. Rounding to nearest
  gives zero only for an exact result below the least subnormal in magnitude; that is
  all the properties ask of \<open>rnd\<close>.
\<close>

definition overflows :: "real \<Rightarrow> bool" where
  "overflows x = (\<bar>x\<bar> \<ge> overflow_threshold)"

definition grid_scale :: real where
  "grid_scale = 2 ^ 1074"

definition on_double_grid :: "real \<Rightarrow> bool" where
  "on_double_grid x = (x * grid_scale \<in> \<int> \<and> \<bar>x\<bar> \<le> max_double)"

definition keeps_nonzero :: "(real \<Rightarrow> real) \<Rightarrow> bool" where
  "keeps_nonzero rnd = (\<forall>x. \<bar>x\<bar> * grid_scale \<ge> 1 \<longrightarrow> rnd x \<noteq> 0)"

section \<open>Properties\<close>

subsection \<open>History statistics\<close>

lemma length_filter_split:
  "length (filter (\<lambda>t. pnl_rupees t > 0) xs) + length (filter (\<lambda>t. pnl_rupees t \<le> 0) xs)
     = length xs"
  by (induction xs) auto

text \<open>What the callback of the filter lets through, condition by condition.\<close>

lemma keep_trade_iff:
  "keep_trade flt df t =
     ((flt = Wins \<longrightarrow> pnl_rupees t > 0) \<and> (flt = Losses \<longrightarrow> pnl_rupees t \<le> 0)
      \<and> (df \<noteq> [] \<longrightarrow> date t = df))"
  by (auto simp: keep_trade_def)

text \<open>The statistics of a trade list with one more trade in front.\<close>

lemma stats_Cons:
  "stats (t # ts) flt df =
     (if keep_trade flt df t
      then \<lparr> totalTrades = Suc (totalTrades (stats ts flt df)),
             wins = (if pnl_rupees t > 0 then 1 else 0) + wins (stats ts flt df),
             losses = (if pnl_rupees t > 0 then 0 else 1) + losses (stats ts flt df) \<rparr>
      else stats ts flt df)"
  by (simp add: stats_def stats_of_def filteredTrades_def)

text \<open>
  Claim C9. For every loaded trade list and every setting of the two filters, the
  statistics are those of the filtered trades: the total is the number of trades that
  the filter lets through, the wins are those of them with a strictly positive rupee
  P&L and the losses are all the others, so that wins and losses add up to the total.
  The filter lets a trade through exactly when it is a win under \<open>wins\<close>, not a win under
  \<open>losses\<close>, and of the chosen date when a date is chosen. Hence a trade with P&L zero
  that passes the filter adds one to the total and to the losses and nothing to the
  wins; it is dropped by the filter \<open>wins\<close> and is kept by the filter \<open>losses\<close> (when the
  date filter lets it through).
\<close>

theorem history_stats_partition:
  "wins (stats trades flt df) + losses (stats trades flt df) = totalTrades (stats trades flt df)
   \<and> totalTrades (stats trades flt df) = length (filteredTrades trades flt df)
   \<and> wins (stats trades flt df)
        = length (filter (\<lambda>t. pnl_rupees t > 0) (filteredTrades trades flt df))
   \<and> losses (stats trades flt df)
        = length (filter (\<lambda>t. \<not> pnl_rupees t > 0) (filteredTrades trades flt df))
   \<and> filteredTrades trades flt df
        = filter (\<lambda>t. (flt = Wins \<longrightarrow> pnl_rupees t > 0) \<and> (flt = Losses \<longrightarrow> pnl_rupees t \<le> 0)
                      \<and> (df \<noteq> [] \<longrightarrow> date t = df)) trades
   \<and> stats [] flt df = \<lparr> totalTrades = 0, wins = 0, losses = 0 \<rparr>
   \<and> stats (t # ts) flt df =
        (if keep_trade flt df t
         then \<lparr> totalTrades = Suc (totalTrades (stats ts flt df)),
                wins = (if pnl_rupees t > 0 then 1 else 0) + wins (stats ts flt df),
                losses = (if pnl_rupees t > 0 then 0 else 1) + losses (stats ts flt df) \<rparr>
         else stats ts flt df)
   \<and> (flt = Wins \<longrightarrow> losses (stats trades flt df) = 0)
   \<and> (flt = Losses \<longrightarrow> wins (stats trades flt df) = 0)
   \<and> wins (stats_of (t # ts)) = (if pnl_rupees t > 0 then 1 else 0) + wins (stats_of ts)
   \<and> losses (stats_of (t # ts)) = (if pnl_rupees t > 0 then 0 else 1) + losses (stats_of ts)
   \<and> (pnl_rupees t = 0 \<longrightarrow>
        losses (stats_of (t # ts)) = Suc (losses (stats_of ts))
        \<and> wins (stats_of (t # ts)) = wins (stats_of ts)
        \<and> \<not> keep_trade Wins df t
        \<and> keep_trade Losses df t = (df = [] \<or> date t = df)
        \<and> t \<notin> set (filteredTrades trades Wins df)
        \<and> (t \<in> set (filteredTrades trades Losses df)) = (t \<in> set trades \<and> (df = [] \<or> date t = df))
        \<and> stats (t # ts) Wins df = stats ts Wins df
        \<and> (keep_trade flt df t \<longrightarrow>
              totalTrades (stats (t # ts) flt df) = Suc (totalTrades (stats ts flt df))
              \<and> losses (stats (t # ts) flt df) = Suc (losses (stats ts flt df))
              \<and> wins (stats (t # ts) flt df) = wins (stats ts flt df)))"
proof -
  have part: "wins (stats trades flt df) + losses (stats trades flt df)
                = totalTrades (stats trades flt df)"
    by (simp add: stats_def stats_of_def length_filter_split)
  have counters:
    "totalTrades (stats trades flt df) = length (filteredTrades trades flt df)"
    "wins (stats trades flt df)
       = length (filter (\<lambda>t. pnl_rupees t > 0) (filteredTrades trades flt df))"
    "losses (stats trades flt df)
       = length (filter (\<lambda>t. \<not> pnl_rupees t > 0) (filteredTrades trades flt df))"
    by (simp_all add: stats_def stats_of_def not_less)
  have flt_eq: "filteredTrades trades flt df
        = filter (\<lambda>t. (flt = Wins \<longrightarrow> pnl_rupees t > 0) \<and> (flt = Losses \<longrightarrow> pnl_rupees t \<le> 0)
                      \<and> (df \<noteq> [] \<longrightarrow> date t = df)) trades"
    unfolding filteredTrades_def by (rule filter_cong) (simp_all add: keep_trade_iff)
  have nil: "stats [] flt df = \<lparr> totalTrades = 0, wins = 0, losses = 0 \<rparr>"
    by (simp add: stats_def stats_of_def filteredTrades_def)
  have only_wins: "flt = Wins \<longrightarrow> losses (stats trades flt df) = 0"
    by (auto simp: stats_def stats_of_def filteredTrades_def keep_trade_def filter_empty_conv)
  have only_losses: "flt = Losses \<longrightarrow> wins (stats trades flt df) = 0"
    by (auto simp: stats_def stats_of_def filteredTrades_def keep_trade_def filter_empty_conv)
  have cons_of:
    "wins (stats_of (t # ts)) = (if pnl_rupees t > 0 then 1 else 0) + wins (stats_of ts)"
    "losses (stats_of (t # ts)) = (if pnl_rupees t > 0 then 0 else 1) + losses (stats_of ts)"
    by (simp_all add: stats_of_def)
  have zero: "pnl_rupees t = 0 \<longrightarrow>
        losses (stats_of (t # ts)) = Suc (losses (stats_of ts))
        \<and> wins (stats_of (t # ts)) = wins (stats_of ts)
        \<and> \<not> keep_trade Wins df t
        \<and> keep_trade Losses df t = (df = [] \<or> date t = df)
        \<and> t \<notin> set (filteredTrades trades Wins df)
        \<and> (t \<in> set (filteredTrades trades Losses df)) = (t \<in> set trades \<and> (df = [] \<or> date t = df))
        \<and> stats (t # ts) Wins df = stats ts Wins df
        \<and> (keep_trade flt df t \<longrightarrow>
              totalTrades (stats (t # ts) flt df) = Suc (totalTrades (stats ts flt df))
              \<and> losses (stats (t # ts) flt df) = Suc (losses (stats ts flt df))
              \<and> wins (stats (t # ts) flt df) = wins (stats ts flt df))"
    by (auto simp: stats_Cons stats_of_def filteredTrades_def keep_trade_def)
  show ?thesis
    using part counters flt_eq nil only_wins only_losses cons_of zero stats_Cons[of t ts flt df]
    by blast
qed

theorem history_stats_partition_witness:
  "pnl_rupees \<lparr>trade_id = 1, date = ''2026-02-04'', exit_reason = ''time_exit'', pnl_rupees = 0\<rparr> = 0
   \<and> keep_trade Losses []
        \<lparr>trade_id = 1, date = ''2026-02-04'', exit_reason = ''time_exit'', pnl_rupees = 0\<rparr>
   \<and> stats [\<lparr>trade_id = 1, date = ''2026-02-04'', exit_reason = ''time_exit'', pnl_rupees = 0\<rparr>,
             \<lparr>trade_id = 2, date = ''2026-02-04'', exit_reason = ''profit_target'', pnl_rupees = 250\<rparr>,
             \<lparr>trade_id = 3, date = ''2026-02-05'', exit_reason = ''initial_stop'', pnl_rupees = - 100\<rparr>]
        All []
      = \<lparr>totalTrades = 3, wins = 1, losses = 2\<rparr>
   \<and> stats [\<lparr>trade_id = 1, date = ''2026-02-04'', exit_reason = ''time_exit'', pnl_rupees = 0\<rparr>,
             \<lparr>trade_id = 2, date = ''2026-02-04'', exit_reason = ''profit_target'', pnl_rupees = 250\<rparr>,
             \<lparr>trade_id = 3, date = ''2026-02-05'', exit_reason = ''initial_stop'', pnl_rupees = - 100\<rparr>]
        Wins []
      = \<lparr>totalTrades = 1, wins = 1, losses = 0\<rparr>
   \<and> stats [\<lparr>trade_id = 1, date = ''2026-02-04'', exit_reason = ''time_exit'', pnl_rupees = 0\<rparr>,
             \<lparr>trade_id = 2, date = ''2026-02-04'', exit_reason = ''profit_target'', pnl_rupees = 250\<rparr>,
             \<lparr>trade_id = 3, date = ''2026-02-05'', exit_reason = ''initial_stop'', pnl_rupees = - 100\<rparr>]
        Losses []
      = \<lparr>totalTrades = 2, wins = 0, losses = 2\<rparr>
   \<and> stats [\<lparr>trade_id = 1, date = ''2026-02-04'', exit_reason = ''time_exit'', pnl_rupees = 0\<rparr>,
             \<lparr>trade_id = 2, date = ''2026-02-04'', exit_reason = ''profit_target'', pnl_rupees = 250\<rparr>,
             \<lparr>trade_id = 3, date = ''2026-02-05'', exit_reason = ''initial_stop'', pnl_rupees = - 100\<rparr>]
        Losses ''2026-02-04''
      = \<lparr>totalTrades = 1, wins = 0, losses = 1\<rparr>
   \<and> stats [\<lparr>trade_id = 2, date = ''2026-02-04'', exit_reason = ''profit_target'', pnl_rupees = 250\<rparr>]
        Losses []
      = \<lparr>totalTrades = 0, wins = 0, losses = 0\<rparr>
   \<and> filteredTrades
         [\<lparr>trade_id = 1, date = ''2026-02-04'', exit_reason = ''time_exit'', pnl_rupees = 0\<rparr>,
          \<lparr>trade_id = 2, date = ''2026-02-04'', exit_reason = ''profit_target'', pnl_rupees = 250\<rparr>]
         Wins []
      = [\<lparr>trade_id = 2, date = ''2026-02-04'', exit_reason = ''profit_target'', pnl_rupees = 250\<rparr>]
   \<and> filteredTrades
         [\<lparr>trade_id = 1, date = ''2026-02-04'', exit_reason = ''time_exit'', pnl_rupees = 0\<rparr>,
          \<lparr>trade_id = 2, date = ''2026-02-04'', exit_reason = ''profit_target'', pnl_rupees = 250\<rparr>]
         Losses []
      = [\<lparr>trade_id = 1, date = ''2026-02-04'', exit_reason = ''time_exit'', pnl_rupees = 0\<rparr>]"
  using history_stats_partition
    [of "[\<lparr>trade_id = 1, date = ''2026-02-04'', exit_reason = ''time_exit'', pnl_rupees = 0\<rparr>,
          \<lparr>trade_id = 2, date = ''2026-02-04'', exit_reason = ''profit_target'', pnl_rupees = 250\<rparr>,
          \<lparr>trade_id = 3, date = ''2026-02-05'', exit_reason = ''initial_stop'', pnl_rupees = - 100\<rparr>]"
        Losses "[]"
        "\<lparr>trade_id = 1, date = ''2026-02-04'', exit_reason = ''time_exit'', pnl_rupees = 0\<rparr>"
        "[\<lparr>trade_id = 2, date = ''2026-02-04'', exit_reason = ''profit_target'', pnl_rupees = 250\<rparr>,
          \<lparr>trade_id = 3, date = ''2026-02-05'', exit_reason = ''initial_stop'', pnl_rupees = - 100\<rparr>]"]
    history_stats_partition
    [of "[\<lparr>trade_id = 1, date = ''2026-02-04'', exit_reason = ''time_exit'', pnl_rupees = 0\<rparr>,
          \<lparr>trade_id = 2, date = ''2026-02-04'', exit_reason = ''profit_target'', pnl_rupees = 250\<rparr>,
          \<lparr>trade_id = 3, date = ''2026-02-05'', exit_reason = ''initial_stop'', pnl_rupees = - 100\<rparr>]"
        Wins "[]"
        "\<lparr>trade_id = 1, date = ''2026-02-04'', exit_reason = ''time_exit'', pnl_rupees = 0\<rparr>"
        "[\<lparr>trade_id = 2, date = ''2026-02-04'', exit_reason = ''profit_target'', pnl_rupees = 250\<rparr>,
          \<lparr>trade_id = 3, date = ''2026-02-05'', exit_reason = ''initial_stop'', pnl_rupees = - 100\<rparr>]"]
  by (simp add: stats_def stats_of_def filteredTrades_def keep_trade_def)

subsection \<open>ProgressBar\<close>

lemma grid_scale_pos: "grid_scale > 0"
  by (simp add: grid_scale_def)

text \<open>Two different finite doubles differ by the least subnormal at least.\<close>

lemma grid_gap:
  assumes "on_double_grid a" and "on_double_grid b" and "a \<noteq> b"
  shows "\<bar>a - b\<bar> * grid_scale \<ge> 1"
proof -
  from assms obtain i j :: int
    where i: "a * grid_scale = of_int i" and j: "b * grid_scale = of_int j"
    by (auto simp: on_double_grid_def Ints_def)
  have "i \<noteq> j"
  proof
    assume "i = j"
    with i j have "a * grid_scale = b * grid_scale" by simp
    then have "a = b" using grid_scale_pos by simp
    with assms(3) show False by simp
  qed
  then have "\<bar>i - j\<bar> \<ge> 1" by arith
  then have "\<bar>(of_int (i - j) :: real)\<bar> \<ge> 1"
    by (metis of_int_abs of_int_1_le_iff)
  moreover have "(of_int (i - j) :: real) = (a - b) * grid_scale"
    using i j by (simp add: algebra_simps)
  ultimately show ?thesis
    using grid_scale_pos by (simp add: abs_mult)
qed

lemma range_not_zero:
  assumes "on_double_grid (max_of p)" and "on_double_grid (min_of p)"
    and "max_of p \<noteq> min_of p" and "keeps_nonzero rnd"
  shows "range_of rnd p \<noteq> Fin 0 \<and> range_of rnd p \<noteq> NaN"
  using grid_gap[OF assms(1-3)] assms(4)
  by (auto simp: range_of_def js_sub_def fl_def keeps_nonzero_def)

lemma fl_not_NaN: "fl rnd x \<noteq> NaN"
  by (simp add: fl_def)

lemma clamp_cases:
  "r \<noteq> NaN \<Longrightarrow>
     \<exists>x. Math_min (Math_max r 0) 100 = Fin x \<and> 0 \<le> x \<and> x \<le> 100
       \<and> x = (case r of Fin y \<Rightarrow> min (max y 0) 100 | PosInf \<Rightarrow> 100 | NegInf \<Rightarrow> 0 | NaN \<Rightarrow> x)"
  by (cases r) auto

lemma ratio_not_NaN:
  assumes "range_of rnd p \<noteq> Fin 0 \<and> range_of rnd p \<noteq> NaN"
    and "\<not> (overflows (pb_value p - min_of p) \<and> overflows (max_of p - min_of p))"
  shows "ratio rnd p \<noteq> NaN"
proof -
  let ?a = "js_sub rnd (pb_value p) (min_of p)"
  let ?b = "range_of rnd p"
  have a: "?a \<noteq> NaN" by (simp add: js_sub_def fl_not_NaN)
  have inf: "\<not> ((?a = PosInf \<or> ?a = NegInf) \<and> (?b = PosInf \<or> ?b = NegInf))"
    using assms(2)
    by (auto simp: js_sub_def range_of_def fl_def overflows_def split: if_splits)
  have "js_div rnd ?a ?b \<noteq> NaN"
    using a assms(1) inf
    by (cases ?a; cases ?b) (auto simp: fl_not_NaN)
  then show ?thesis
    by (cases "js_div rnd ?a ?b") (auto simp: ratio_def fl_not_NaN)
qed

text \<open>
  When both subtractions overflow, the quotient is an infinity divided by an infinity,
  whatever the rounding.
\<close>

lemma both_overflow_NaN:
  assumes "overflows (pb_value p - min_of p)" and "overflows (max_of p - min_of p)"
  shows "percentage rnd p = NaN"
proof -
  have "js_sub rnd (pb_value p) (min_of p) = PosInf \<or> js_sub rnd (pb_value p) (min_of p) = NegInf"
    using assms(1) by (auto simp: js_sub_def fl_def overflows_def)
  moreover have "range_of rnd p = PosInf \<or> range_of rnd p = NegInf"
    using assms(2) by (auto simp: range_of_def js_sub_def fl_def overflows_def)
  ultimately show ?thesis
    by (auto simp: percentage_def ratio_def)
qed

text \<open>
  Without the side condition \<open>max \<noteq> min\<close> the clamp does not help either: with
  \<open>max = min = value\<close> the quotient is \<open>0 / 0\<close>, and \<open>NaN\<close> passes through \<open>Math.max\<close> and
  \<open>Math.min\<close>.
\<close>

lemma percentage_degenerate:
  "percentage (\<lambda>x. x) \<lparr>pb_value = 5, pb_max = Some 5, pb_min = Some 5\<rparr> = NaN"
  by (simp add: percentage_def ratio_def range_of_def js_sub_def fl_def overflow_threshold_def
        max_of_def min_of_def)

text \<open>
  Claim C10, as stated, for every value, min and max with \<open>max \<noteq> min\<close>: the percentage
  lies between 0 and 100. It fails for \<open>value = max = 2^1023\<close> and \<open>min = -2^1023\<close>, three
  finite doubles with \<open>max \<noteq> min\<close>: \<open>value - min\<close> and \<open>max - min\<close> are both \<open>2^1024\<close>
  exactly, beyond the largest double, so both are \<open>Infinity\<close>, their quotient is \<open>NaN\<close>
  and so is the percentage (the width is \<open>NaN%\<close>). The rounding plays no part at this
  input.
\<close>

theorem progress_percentage_overflow_counterexample:
  "on_double_grid (2 ^ 1023) \<and> on_double_grid (- (2 ^ 1023))
   \<and> max_of \<lparr>pb_value = 2 ^ 1023, pb_max = Some (2 ^ 1023), pb_min = Some (- (2 ^ 1023))\<rparr>
       \<noteq> min_of \<lparr>pb_value = 2 ^ 1023, pb_max = Some (2 ^ 1023), pb_min = Some (- (2 ^ 1023))\<rparr>
   \<and> percentage (\<lambda>x. x)
        \<lparr>pb_value = 2 ^ 1023, pb_max = Some (2 ^ 1023), pb_min = Some (- (2 ^ 1023))\<rparr> = NaN
   \<and> bar_width (\<lambda>x. x)
        \<lparr>pb_value = 2 ^ 1023, pb_max = Some (2 ^ 1023), pb_min = Some (- (2 ^ 1023))\<rparr> = Percent NaN"
  by (simp add: on_double_grid_def grid_scale_def max_double_def max_of_def min_of_def
        bar_width_def percentage_def ratio_def range_of_def js_sub_def fl_def overflow_threshold_def)

text \<open>
  Claim C10, amended. For every finite value and all finite doubles min and max with
  \<open>max \<noteq> min\<close>, unless the subtractions \<open>value - min\<close> and \<open>max - min\<close> both overflow, the
  fill percentage of \<open>ProgressBar\<close> is a finite number of the closed interval from 0 to
  100: it is the computed ratio \<open>((value - min) / (max - min)) * 100\<close> clamped from both
  sides (a finite ratio to \<open>min (max ratio 0) 100\<close>, \<open>Infinity\<close> to 100, \<open>-Infinity\<close> to 0),
  and the width of the rendered bar is that percentage. The rounding of the platform
  enters only through the fact that it does not round a number of the magnitude of the
  least subnormal or more to zero.
\<close>

theorem progress_percentage_clamped:
  assumes "on_double_grid (max_of p)" and "on_double_grid (min_of p)"
    and "keeps_nonzero rnd"
    and "max_of p \<noteq> min_of p"
    and "\<not> (overflows (pb_value p - min_of p) \<and> overflows (max_of p - min_of p))"
  shows "\<exists>x. percentage rnd p = Fin x \<and> 0 \<le> x \<and> x \<le> 100
            \<and> x = (case ratio rnd p of
                     Fin y \<Rightarrow> min (max y 0) 100 | PosInf \<Rightarrow> 100 | NegInf \<Rightarrow> 0 | NaN \<Rightarrow> x)
            \<and> ratio rnd p \<noteq> NaN
            \<and> bar_width rnd p = Percent (Fin x)"
proof -
  have "range_of rnd p \<noteq> Fin 0 \<and> range_of rnd p \<noteq> NaN"
    using assms(1,2,4,3) by (rule range_not_zero)
  then have r: "ratio rnd p \<noteq> NaN"
    using assms(5) by (rule ratio_not_NaN)
  from clamp_cases[OF r] show ?thesis
    using r by (auto simp: percentage_def bar_width_def)
qed

text \<open>
  At \<open>value = 1\<close>, \<open>max = 4\<close> and the default \<open>min = 0\<close> every operation is exact in
  binary64 (1, 4, 0.25 and 25 are doubles), so the rounding is the identity there.
\<close>

theorem progress_percentage_clamped_witness:
  "on_double_grid (max_of \<lparr>pb_value = 1, pb_max = Some 4, pb_min = None\<rparr>)
   \<and> on_double_grid (min_of \<lparr>pb_value = 1, pb_max = Some 4, pb_min = None\<rparr>)
   \<and> keeps_nonzero (\<lambda>x. x)
   \<and> max_of \<lparr>pb_value = 1, pb_max = Some 4, pb_min = None\<rparr>
       \<noteq> min_of \<lparr>pb_value = 1, pb_max = Some 4, pb_min = None\<rparr>
   \<and> \<not> (overflows (pb_value \<lparr>pb_value = 1, pb_max = Some 4, pb_min = None\<rparr>
                    - min_of \<lparr>pb_value = 1, pb_max = Some 4, pb_min = None\<rparr>)
        \<and> overflows (max_of \<lparr>pb_value = 1, pb_max = Some 4, pb_min = None\<rparr>
                    - min_of \<lparr>pb_value = 1, pb_max = Some 4, pb_min = None\<rparr>))
   \<and> percentage (\<lambda>x. x) \<lparr>pb_value = 1, pb_max = Some 4, pb_min = None\<rparr> = Fin 25
   \<and> bar_width (\<lambda>x. x) \<lparr>pb_value = 1, pb_max = Some 4, pb_min = None\<rparr> = Percent (Fin 25)"
proof -
  let ?p = "\<lparr>pb_value = 1, pb_max = Some 4, pb_min = None\<rparr>"
  have g1: "on_double_grid (max_of ?p)" and g2: "on_double_grid (min_of ?p)"
    by (simp_all add: on_double_grid_def grid_scale_def max_double_def max_of_def min_of_def)
  have k: "keeps_nonzero (\<lambda>x. x)"
    using grid_scale_pos by (auto simp: keeps_nonzero_def)
  have ne: "max_of ?p \<noteq> min_of ?p"
    by (simp add: max_of_def min_of_def)
  have ov: "\<not> (overflows (pb_value ?p - min_of ?p) \<and> overflows (max_of ?p - min_of ?p))"
    by (simp add: overflows_def overflow_threshold_def max_of_def min_of_def)
  have r: "ratio (\<lambda>x. x) ?p = Fin 25"
    by (simp add: ratio_def range_of_def js_sub_def fl_def overflow_threshold_def
          max_of_def min_of_def)
  from progress_percentage_clamped[OF g1 g2 k ne ov] r
  have "percentage (\<lambda>x. x) ?p = Fin 25 \<and> bar_width (\<lambda>x. x) ?p = Percent (Fin 25)"
    by auto
  with g1 g2 k ne ov show ?thesis by blast
qed

subsection \<open>Dashboard\<close>

text \<open>
  Claim C3. The catalogue of confluence factors is one list of seven distinct names. Both
  signal cards render one badge per factor of that same list, in its order, whatever the
  snapshot holds. The header of each card shows the count of its side followed by the
  literal \<open>/6\<close>: the denominator is the constant 6 and not the length of the catalogue.
\<close>

theorem confluence_catalogue_and_denominator:
  "length CONFLUENCE_FACTORS = 7
   \<and> distinct CONFLUENCE_FACTORS
   \<and> map fst (call_badges d) = CONFLUENCE_FACTORS
   \<and> map fst (put_badges d) = CONFLUENCE_FACTORS
   \<and> call_header d = [JsxNumber (confluence_call d), JsxText ''/6'']
   \<and> put_header d = [JsxNumber (confluence_put d), JsxText ''/6'']
   \<and> length CONFLUENCE_FACTORS \<noteq> 6"
  by (simp add: CONFLUENCE_FACTORS_def call_badges_def put_badges_def call_header_def put_header_def)

text \<open>
  Claim C4. For every snapshot and every table of thresholds, the row \<open>PCR\<close> of the CALL
  card passes exactly when \<open>pcr > 1.05\<close> and its row \<open>RSI\<close> exactly when \<open>rsi < 75\<close>; the
  row \<open>PCR\<close> of the PUT card passes exactly when \<open>pcr < 0.95\<close> and its row \<open>RSI\<close> exactly
  when \<open>rsi > 25\<close>. The value, the comparison and the threshold that each of these rows
  displays are those of its pass predicate, with the comparison turned round between
  the sides.
\<close>

theorem directional_predicates_mirrored:
  "map_option passed (row (call_rows th d) ''PCR'') = Some (pcr d > 105 / 100)
   \<and> map_option passed (row (call_rows th d) ''RSI'') = Some (rsi d < 75)
   \<and> map_option passed (row (put_rows th d) ''PCR'') = Some (pcr d < 95 / 100)
   \<and> map_option passed (row (put_rows th d) ''RSI'') = Some (rsi d > 25)
   \<and> map_option (\<lambda>r. (cr_value r, comparison r, threshold r)) (row (call_rows th d) ''PCR'')
        = Some (pcr d, gt, 105 / 100)
   \<and> map_option (\<lambda>r. (cr_value r, comparison r, threshold r)) (row (put_rows th d) ''PCR'')
        = Some (pcr d, lt, 95 / 100)
   \<and> map_option (\<lambda>r. (cr_value r, comparison r, threshold r)) (row (call_rows th d) ''RSI'')
        = Some (rsi d, lt, 75)
   \<and> map_option (\<lambda>r. (cr_value r, comparison r, threshold r)) (row (put_rows th d) ''RSI'')
        = Some (rsi d, gt, 25)"
  by (simp add: row_def call_rows_def put_rows_def)

subsection \<open>The state subscription\<close>

lemma handle_data:
  "data (handle parse s ev) = (case snapshot_of parse ev of None \<Rightarrow> data s | Some d \<Rightarrow> d)"
  by (cases ev)
     (auto simp: onopen_def onclose_def onerror_def onmessage_def has_type_def is_ping_pong_def
           split: option.splits sum.splits)

lemma run_data: "data (run parse s evs) = last (data s # snapshots parse evs)"
proof (induction evs arbitrary: s)
  case Nil
  show ?case by (simp add: run_def snapshots_def)
next
  case (Cons ev evs)
  have "data (run parse s (ev # evs)) = data (run parse (handle parse s ev) evs)"
    by (simp add: run_def)
  also have "\<dots> = last (data (handle parse s ev) # snapshots parse evs)"
    by (rule Cons.IH)
  also have "\<dots> = last (data s # snapshots parse (ev # evs))"
    by (cases "snapshot_of parse ev") (simp_all add: handle_data snapshots_def map_filter_simps)
  finally show ?case .
qed

text \<open>
  Claim C6. After any sequence of socket events, the snapshot that the hook holds is the
  payload of the last message received whose type is neither \<open>ping\<close> nor \<open>pong\<close>, and it
  is the snapshot held before when there was no such message; as this holds for every
  sequence, it holds after each message. A message replaces the snapshot wholesale
  and nothing is queued. A \<open>ping\<close> or \<open>pong\<close> message leaves the whole state as it was.
  (A frame that does not parse, and the document \<open>null\<close>, have no type: the handler
  catches the exception and the snapshot stays.)
\<close>

theorem last_value_wins:
  "data (run parse s evs) = last (data s # snapshots parse evs)
   \<and> (parse frame = Some d \<and> is_ping_pong d \<longrightarrow> onmessage parse s frame = s)
   \<and> (parse frame = Some d \<and> has_type d \<and> \<not> is_ping_pong d \<longrightarrow>
         onmessage parse s frame = s\<lparr> data := d \<rparr>)"
  by (auto simp: run_data onmessage_def is_ping_pong_def has_type_def split: sum.splits)

theorem last_value_wins_witness:
  "(let parse = (\<lambda>frame.
        if frame = ''ping'' then Some (JObj [(''type'', JStr ''ping'')])
        else if frame = ''tick1'' then Some (JObj [(''type'', JStr ''state''), (''spot_price'', JNum 100)])
        else if frame = ''tick2'' then Some (JObj [(''type'', JStr ''state''), (''spot_price'', JNum 101)])
        else if frame = ''null'' then Some JNull
        else None)
    in parse ''ping'' = Some (JObj [(''type'', JStr ''ping'')])
       \<and> is_ping_pong (JObj [(''type'', JStr ''ping'')])
       \<and> onmessage parse initial_state ''ping'' = initial_state
       \<and> parse ''tick1'' = Some (JObj [(''type'', JStr ''state''), (''spot_price'', JNum 100)])
       \<and> has_type (JObj [(''type'', JStr ''state''), (''spot_price'', JNum 100)])
       \<and> \<not> is_ping_pong (JObj [(''type'', JStr ''state''), (''spot_price'', JNum 100)])
       \<and> data (onmessage parse initial_state ''tick1'')
            = JObj [(''type'', JStr ''state''), (''spot_price'', JNum 100)]
       \<and> data (run parse initial_state
            [Open, Message ''tick1'', Message ''ping'', Message ''tick2'', Message ''garbage'',
             Message ''null'', Message ''pong'', Close])
            = JObj [(''type'', JStr ''state''), (''spot_price'', JNum 101)])"
  using last_value_wins
    [of "\<lambda>frame.
        if frame = ''ping'' then Some (JObj [(''type'', JStr ''ping'')])
        else if frame = ''tick1'' then Some (JObj [(''type'', JStr ''state''), (''spot_price'', JNum 100)])
        else if frame = ''tick2'' then Some (JObj [(''type'', JStr ''state''), (''spot_price'', JNum 101)])
        else if frame = ''null'' then Some JNull
        else None"
      initial_state
      "[Open, Message ''tick1'', Message ''ping'', Message ''tick2'', Message ''garbage'',
        Message ''null'', Message ''pong'', Close]"
      "''ping''" "JObj [(''type'', JStr ''ping'')]"]
    last_value_wins
    [of "\<lambda>frame.
        if frame = ''ping'' then Some (JObj [(''type'', JStr ''ping'')])
        else if frame = ''tick1'' then Some (JObj [(''type'', JStr ''state''), (''spot_price'', JNum 100)])
        else if frame = ''tick2'' then Some (JObj [(''type'', JStr ''state''), (''spot_price'', JNum 101)])
        else if frame = ''null'' then Some JNull
        else None"
      initial_state "[]"
      "''tick1''" "JObj [(''type'', JStr ''state''), (''spot_price'', JNum 100)]"]
  by (simp add: Let_def is_ping_pong_def has_type_def snapshots_def map_filter_simps)

subsection \<open>Requests to the control surface\<close>

text \<open>
  Claim C7. The action of an orphan resolution is one of exactly three values, \<open>RECOVER\<close>,
  \<open>EXIT\<close> and \<open>IGNORE\<close>, which are sent as three different strings, and the body of every
  request that \<open>handleOrphan\<close> builds has exactly one member \<open>action\<close>, holding the string
  of the action it was called with.
\<close>

theorem orphan_actions_exactly_three:
  "(UNIV :: orphan_action set) = {RECOVER, EXIT, IGNORE}
   \<and> distinct [RECOVER, EXIT, IGNORE]
   \<and> distinct (map action_string [RECOVER, EXIT, IGNORE])
   \<and> action_string a \<in> {''RECOVER'', ''EXIT'', ''IGNORE''}
   \<and> (\<exists>members. rq_body (handleOrphan a td) = Some (JObj members)
         \<and> map_of members ''action'' = Some (JStr (action_string a))
         \<and> length (filter (\<lambda>kv. fst kv = ''action'') members) = 1)"
proof -
  have "(UNIV :: orphan_action set) = {RECOVER, EXIT, IGNORE}"
    using orphan_action.exhaust by auto
  moreover have "action_string a \<in> {''RECOVER'', ''EXIT'', ''IGNORE''}"
    by (cases a) simp_all
  moreover have "length (filter (\<lambda>kv. fst kv = ''action'') (json_member ''trade_data'' td)) = 0"
    by (cases td) (simp_all add: json_member_def)
  ultimately show ?thesis
    by (simp add: handleOrphan_def)
qed

subsection \<open>Starting the engine\<close>

lemma start_request_is_start [simp]: "is_start_request (Fetch (startEngine c))"
  by (simp add: is_start_request_def startEngine_def)

lemma orphan_check_is_no_start [simp]: "\<not> is_start_request (Fetch checkOrphan)"
  by (simp add: is_start_request_def checkOrphan_def)

text \<open>
  Claim C8. In execution mode \<open>LIVE\<close>, \<open>handleStart\<close> issues an engine-start request only
  when the confirmation text is exactly \<open>CONFIRM\<close>: with any other text it sends nothing
  and only sets the validation error. In the modes \<open>OFF\<close> and \<open>PAPER\<close> the first thing it
  does is the start request, in that mode, whatever the confirmation text is.
\<close>

theorem live_start_needs_confirm:
  "(executionMode s = LIVE \<and> confirmText s \<noteq> ''CONFIRM'' \<longrightarrow>
       snd (handleStart w s) = []
       \<and> fst (handleStart w s) = s\<lparr> validationError := ''Please type CONFIRM to enable live trading'' \<rparr>)
   \<and> (executionMode s = LIVE \<longrightarrow>
       ((\<exists>e \<in> set (snd (handleStart w s)). is_start_request e) = (confirmText s = ''CONFIRM'')))
   \<and> (executionMode s = OFF \<or> executionMode s = PAPER \<longrightarrow>
       (\<exists>rest. snd (handleStart w s) = Fetch (startEngine (start_config s)) # rest)
       \<and> ec_executionMode (start_config s) = executionMode s)"
  by (auto simp: handleStart_def Let_def start_config_def)

theorem live_start_needs_confirm_witness:
  "executionMode \<lparr> step = confirm_step, token = ''tok'', capital = 100000, executionMode = LIVE,
       broker = UPSTOX, dhanToken = [], dhanClientId = [], confirmText = ''CONFIRN'',
       validationError = [] \<rparr> = LIVE
   \<and> ''CONFIRN'' \<noteq> ''CONFIRM''
   \<and> handleStart \<lparr> start_ok = True, has_orphan = False \<rparr>
        \<lparr> step = confirm_step, token = ''tok'', capital = 100000, executionMode = LIVE,
          broker = UPSTOX, dhanToken = [], dhanClientId = [], confirmText = ''CONFIRN'',
          validationError = [] \<rparr>
      = (\<lparr> step = confirm_step, token = ''tok'', capital = 100000, executionMode = LIVE,
           broker = UPSTOX, dhanToken = [], dhanClientId = [], confirmText = ''CONFIRN'',
           validationError = ''Please type CONFIRM to enable live trading'' \<rparr>, [])
   \<and> snd (handleStart \<lparr> start_ok = True, has_orphan = False \<rparr>
        \<lparr> step = execution_step, token = ''tok'', capital = 100000, executionMode = PAPER,
          broker = UPSTOX, dhanToken = [], dhanClientId = [], confirmText = [],
          validationError = [] \<rparr>)
      = [Fetch (startEngine \<lparr> ec_token = ''tok'', ec_capital = 100000, ec_executionMode = PAPER,
                              ec_broker = UPSTOX, ec_dhanToken = None, ec_dhanClientId = None \<rparr>),
         Fetch checkOrphan, Navigate ''/dashboard'']"
  using live_start_needs_confirm
    [of "\<lparr> step = confirm_step, token = ''tok'', capital = 100000, executionMode = LIVE,
          broker = UPSTOX, dhanToken = [], dhanClientId = [], confirmText = ''CONFIRN'',
          validationError = [] \<rparr>"
        "\<lparr> start_ok = True, has_orphan = False \<rparr>"]
    live_start_needs_confirm
    [of "\<lparr> step = execution_step, token = ''tok'', capital = 100000, executionMode = PAPER,
          broker = UPSTOX, dhanToken = [], dhanClientId = [], confirmText = [],
          validationError = [] \<rparr>"
        "\<lparr> start_ok = True, has_orphan = False \<rparr>"]
  by (simp add: handleStart_def Let_def start_config_def)

lemma handleStart_never_resolves:
  "filter is_orphan_resolution (snd (handleStart w s)) = []"
  by (simp add: handleStart_def Let_def is_orphan_resolution_def startEngine_def checkOrphan_def)

text \<open>
  Claim C1. The start sequence must not start the engine before an orphan has been
  resolved. The code does otherwise: with an orphan present (execution mode \<open>OFF\<close>, the
  start request accepted, \<open>has_orphan\<close> true) \<open>handleStart\<close> sends the engine-start request
  first, asks for the orphan status only afterwards, sends no orphan resolution at all
  and navigates to the dashboard.
\<close>

theorem start_sequence_with_orphan:
  "snd (handleStart \<lparr> start_ok = True, has_orphan = True \<rparr>
        \<lparr> step = execution_step, token = ''tok'', capital = 100000, executionMode = OFF,
          broker = UPSTOX, dhanToken = [], dhanClientId = [], confirmText = [],
          validationError = [] \<rparr>)
     = [Fetch (startEngine \<lparr> ec_token = ''tok'', ec_capital = 100000, ec_executionMode = OFF,
                             ec_broker = UPSTOX, ec_dhanToken = None, ec_dhanClientId = None \<rparr>),
        Fetch checkOrphan, Navigate ''/dashboard'']
   \<and> is_start_request (Fetch (startEngine \<lparr> ec_token = ''tok'', ec_capital = 100000,
          ec_executionMode = OFF, ec_broker = UPSTOX, ec_dhanToken = None, ec_dhanClientId = None \<rparr>))
   \<and> is_orphan_check (Fetch checkOrphan)
   \<and> filter is_orphan_resolution
        (snd (handleStart \<lparr> start_ok = True, has_orphan = True \<rparr>
          \<lparr> step = execution_step, token = ''tok'', capital = 100000, executionMode = OFF,
            broker = UPSTOX, dhanToken = [], dhanClientId = [], confirmText = [],
            validationError = [] \<rparr>)) = []"
  by (simp add: handleStart_def Let_def start_config_def is_start_request_def is_orphan_check_def
        is_orphan_resolution_def startEngine_def checkOrphan_def)

subsection \<open>Editing the configuration\<close>

text \<open>
  An edit of a top-level field writes only to the copy: every object that was in the
  store is as it was.
\<close>

lemma top_level_edit_keeps_store:
  assumes "updateValue h s [k] v = Inr (h', s')" and "config s = Some c"
  shows "take (length h) h' = h \<and> config s' = Some (length h)
         \<and> h' ! length h = set_prop k v (h ! c)"
  using assms by (auto simp: updateValue_def Let_def split: if_splits)

text \<open>
  An edit of a field of a section writes to the section object of the configuration held
  before, which the copy shares.
\<close>

lemma nested_edit_writes_shared_object:
  assumes "config s = Some c" and "c < length h"
    and "get_prop (h ! c) k1 = VRef a" and "a < length h"
  shows "updateValue h s [k1, k2] v =
           Inr ((h @ [h ! c])[a := set_prop k2 v (h ! a)],
                s\<lparr> config := Some (length h), hasChanges := True \<rparr>)"
  using assms by (simp add: updateValue_def Let_def nth_append)

text \<open>
  Claim C5. An edit must leave the configuration held before unchanged, its section
  objects included. The code does otherwise: \<open>updateValue(['RISK', 'max_trades_per_day'], 5)\<close>
  on a configuration at address 0 whose section \<open>RISK\<close> is the object at address 1
  allocates the copy at address 2, which shares the section, and assigns into the object
  at address 1. Read through the configuration held before, \<open>RISK.max_trades_per_day\<close>
  was 3 and is 5 afterwards.
\<close>

theorem nested_edit_mutates_held_config:
  "updateValue
     [ [(''ACTIVE_MODE'', VStr ''BALANCED''), (''RISK'', VRef 1), (''REFRESH_INTERVAL_SECONDS'', VNum 5)],
       [(''position_size_lots'', VNum 1), (''max_trades_per_day'', VNum 3)] ]
     \<lparr> config = Some 0, hasChanges = False, saveSuccess = False \<rparr>
     [''RISK'', ''max_trades_per_day''] (VNum 5)
   = Inr ([ [(''ACTIVE_MODE'', VStr ''BALANCED''), (''RISK'', VRef 1), (''REFRESH_INTERVAL_SECONDS'', VNum 5)],
            [(''position_size_lots'', VNum 1), (''max_trades_per_day'', VNum 5)],
            [(''ACTIVE_MODE'', VStr ''BALANCED''), (''RISK'', VRef 1), (''REFRESH_INTERVAL_SECONDS'', VNum 5)] ],
          \<lparr> config = Some 2, hasChanges = True, saveSuccess = False \<rparr>)
   \<and> read_path
        [ [(''ACTIVE_MODE'', VStr ''BALANCED''), (''RISK'', VRef 1), (''REFRESH_INTERVAL_SECONDS'', VNum 5)],
          [(''position_size_lots'', VNum 1), (''max_trades_per_day'', VNum 3)] ]
        0 [''RISK'', ''max_trades_per_day''] = VNum 3
   \<and> read_path
        [ [(''ACTIVE_MODE'', VStr ''BALANCED''), (''RISK'', VRef 1), (''REFRESH_INTERVAL_SECONDS'', VNum 5)],
          [(''position_size_lots'', VNum 1), (''max_trades_per_day'', VNum 5)],
          [(''ACTIVE_MODE'', VStr ''BALANCED''), (''RISK'', VRef 1), (''REFRESH_INTERVAL_SECONDS'', VNum 5)] ]
        0 [''RISK'', ''max_trades_per_day''] = VNum 5"
  by (simp add: updateValue_def Let_def get_prop_def)

subsection \<open>Exit policy\<close>

lemma evaluate_exit_in_hold:
  "within_min_hold c \<Longrightarrow> evaluate_exit c = first_true (take 2 (priority_order c))"
  by (simp add: evaluate_exit_def first_true_def priority_order_def)

text \<open>
  Claim C2, as stated, for every tick of an open trade: the first condition of the
  priority order that is true fires. It fails on a tick inside the minimum-hold duration:
  with the stop crossed and the profit target hit, and nothing else, the first true
  condition is the crossed stop, and no exit fires.
\<close>

theorem exit_priority_in_hold_counterexample:
  "stop_crossed \<lparr> emergency_exit_requested = False, max_loss_reached = False, stop_crossed = True,
       time_exit_reached = False, profit_target_hit = True, profit_protection_hit = False,
       manual_exit_requested = False, trailing_active = False, within_min_hold = True \<rparr>
   \<and> profit_target_hit \<lparr> emergency_exit_requested = False, max_loss_reached = False, stop_crossed = True,
       time_exit_reached = False, profit_target_hit = True, profit_protection_hit = False,
       manual_exit_requested = False, trailing_active = False, within_min_hold = True \<rparr>
   \<and> first_true (priority_order \<lparr> emergency_exit_requested = False, max_loss_reached = False,
       stop_crossed = True, time_exit_reached = False, profit_target_hit = True,
       profit_protection_hit = False, manual_exit_requested = False, trailing_active = False,
       within_min_hold = True \<rparr>) = Some initial_stop
   \<and> evaluate_exit \<lparr> emergency_exit_requested = False, max_loss_reached = False, stop_crossed = True,
       time_exit_reached = False, profit_target_hit = True, profit_protection_hit = False,
       manual_exit_requested = False, trailing_active = False, within_min_hold = True \<rparr> = None"
  by (simp add: evaluate_exit_def first_true_def priority_order_def)

text \<open>
  Claim C2, amended. On every tick of an open trade after the minimum-hold duration, the
  exit that fires is the first condition of the priority order that is true, and its
  reason is the one recorded. When the stop is crossed and the profit target is hit on
  the same such tick, the profit target is never the recorded reason, and the
  stop-crossed reason is the recorded one unless an emergency exit or the maximum loss,
  which rank higher, is true as well.
\<close>

theorem exit_priority_after_hold:
  "\<not> within_min_hold c \<Longrightarrow>
     evaluate_exit c = first_true (priority_order c)
     \<and> (stop_crossed c \<and> profit_target_hit c \<longrightarrow> evaluate_exit c \<noteq> Some profit_target)
     \<and> (stop_crossed c \<and> profit_target_hit c \<and> \<not> emergency_exit_requested c \<and> \<not> max_loss_reached c \<longrightarrow>
          evaluate_exit c = Some (if trailing_active c then trailing_stop else initial_stop))"
  by (simp add: evaluate_exit_def first_true_def priority_order_def)

theorem exit_priority_after_hold_witness:
  "\<not> within_min_hold \<lparr> emergency_exit_requested = False, max_loss_reached = False, stop_crossed = True,
       time_exit_reached = False, profit_target_hit = True, profit_protection_hit = False,
       manual_exit_requested = False, trailing_active = True, within_min_hold = False \<rparr>
   \<and> evaluate_exit \<lparr> emergency_exit_requested = False, max_loss_reached = False, stop_crossed = True,
       time_exit_reached = False, profit_target_hit = True, profit_protection_hit = False,
       manual_exit_requested = False, trailing_active = True, within_min_hold = False \<rparr>
      = Some trailing_stop"
  using exit_priority_after_hold
    [of "\<lparr> emergency_exit_requested = False, max_loss_reached = False, stop_crossed = True,
       time_exit_reached = False, profit_target_hit = True, profit_protection_hit = False,
       manual_exit_requested = False, trailing_active = True, within_min_hold = False \<rparr>"]
  by (simp add: first_true_def priority_order_def)

end
